theory Spec2Isabelle
  imports Main
begin

section \<open>Python strings and paths used by \<open>convert_to_geoparquet\<close>\<close>

text \<open>
  The function under study is \<open>convert_to_geoparquet(event, context)\<close> of
  \<open>src/functions/zip-to-parquet-python/main.py\<close>. Object names and archive entry names are
  Python \<open>str\<close> values; they are modelled as \<open>string\<close>, one \<open>char\<close> per code point
  below 256.

  \<open>str.lower()\<close> on such a code point adds 32 to the capital letters \<open>A\<close>..\<open>Z\<close> (65..90) and
  to the capital letters of Latin-1 (192..222 without the multiplication sign 215), which is
  setting bit 5, and leaves every other code point alone.
\<close>

fun lower_char :: "char \<Rightarrow> char" where
  "lower_char (Char b0 b1 b2 b3 b4 b5 b6 b7) =
     (let n = (of_char (Char b0 b1 b2 b3 b4 b5 b6 b7) :: nat)
      in if (65 \<le> n \<and> n \<le> 90) \<or> (192 \<le> n \<and> n \<le> 222 \<and> n \<noteq> 215)
         then Char b0 b1 b2 b3 b4 True b6 b7
         else Char b0 b1 b2 b3 b4 b5 b6 b7)"

definition lower :: "string \<Rightarrow> string" where
  "lower s = map lower_char s"

definition endswith :: "string \<Rightarrow> string \<Rightarrow> bool" where
  "endswith s suf = (length suf \<le> length s \<and> drop (length s - length suf) s = suf)"

text \<open>\<open>s.split(sep)\<close> for a one-character separator, and \<open>sep.join(parts)\<close>.\<close>

fun split_sep :: "char \<Rightarrow> string \<Rightarrow> string list" where
  "split_sep c [] = [[]]"
| "split_sep c (x # xs) =
     (if x = c then [] # split_sep c xs
      else (case split_sep c xs of [] \<Rightarrow> [[x]] | p # ps \<Rightarrow> (x # p) # ps))"

fun join_sep :: "string \<Rightarrow> string list \<Rightarrow> string" where
  "join_sep sep [] = []"
| "join_sep sep [p] = p"
| "join_sep sep (p # q # ps) = p @ sep @ join_sep sep (q # ps)"

text \<open>\<open>s.rfind(c)\<close>: the index of the last occurrence of \<open>c\<close>, or \<open>-1\<close>.\<close>

fun rfind_from :: "char \<Rightarrow> string \<Rightarrow> int \<Rightarrow> int \<Rightarrow> int" where
  "rfind_from c [] i found = found"
| "rfind_from c (x # xs) i found = rfind_from c xs (i + 1) (if x = c then i else found)"

definition rfind :: "string \<Rightarrow> char \<Rightarrow> int" where
  "rfind s c = rfind_from c s 0 (- 1)"

text \<open>
  \<open>pathlib.Path\<close> on the function's platform is a POSIX path: a root (empty, \<open>/\<close>, or \<open>//\<close>
  for exactly two leading slashes) and the components between slashes, with empty
  components and \<open>.\<close> dropped. \<open>str\<close> of a path with neither root nor components is \<open>.\<close>.
  The parent drops the last component (a bare root is its own parent). The stem is the last
  component up to its last dot, when that dot is neither its first nor its last character.
\<close>

record pure_path =
  path_root :: string
  path_names :: "string list"

definition splitroot :: "string \<Rightarrow> string \<times> string" where
  "splitroot part =
     (if part \<noteq> [] \<and> hd part = CHR ''/'' then
        (let stripped_part = dropWhile (\<lambda>c. c = CHR ''/'') part
         in if length part - length stripped_part = 2 then (''//'', stripped_part)
            else (''/'', stripped_part))
      else ([], part))"

definition Path :: "string \<Rightarrow> pure_path" where
  "Path s =
     (case splitroot s of
        (root, rel) \<Rightarrow>
          \<lparr>path_root = root,
           path_names = filter (\<lambda>x. x \<noteq> [] \<and> x \<noteq> ''.'') (split_sep CHR ''/'' rel)\<rparr>)"

definition path_str :: "pure_path \<Rightarrow> string" where
  "path_str p =
     (let s = path_root p @ join_sep ''/'' (path_names p) in if s = [] then ''.'' else s)"

definition parent :: "pure_path \<Rightarrow> pure_path" where
  "parent p =
     (if path_names p = [] \<and> path_root p \<noteq> [] then p
      else p\<lparr>path_names := butlast (path_names p)\<rparr>)"

definition path_name :: "pure_path \<Rightarrow> string" where
  "path_name p = (if path_names p = [] then [] else last (path_names p))"

definition stem :: "pure_path \<Rightarrow> string" where
  "stem p =
     (let nm = path_name p; i = rfind nm CHR ''.''
      in if 0 < i \<and> i < int (length nm) - 1 then take (nat i) nm else nm)"

text \<open>Truthiness of a value that is \<open>None\<close> or a \<open>str\<close>, and its rendering in an f-string.\<close>

fun truthy :: "string option \<Rightarrow> bool" where
  "truthy None = False"
| "truthy (Some s) = (s \<noteq> [])"

fun fmt :: "string option \<Rightarrow> string" where
  "fmt None = ''None''"
| "fmt (Some s) = s"

section \<open>The world the function acts on\<close>

text \<open>
  The trigger event carries the source bucket and the object name. Everything outside the
  function is explicit: the scratch directory is the set of paths of existing files,
  standard output is the list of printed lines, and every call of the storage client or of
  GDAL is recorded in order. What those calls answer is fixed per invocation by an
  environment: the download either succeeds or raises (leaving a partial file or not), opening
  the archive raises or yields its entry names, \<open>gdal.VectorTranslate\<close> returns or raises and
  has written the output file or not, and the upload succeeds or raises. The source bucket
  name is the one the storage trigger delivers, a valid bucket name, so building its handle
  at line 40 does not fail; the output bucket name is deployment configuration and is
  validated at line 118 as the client validates it. Removing an existing scratch file
  succeeds.
\<close>

record event =
  bucket :: string
  name :: string

datatype download_result = Download_ok | Download_raises string bool

datatype translate_result = Translate_returns bool | Translate_raises string bool

record env =
  OUTPUT_BUCKET_NAME :: "string option"
  download_to_filename :: download_result
  ZipFile_namelist :: "string + string list"
  VectorTranslate :: translate_result
  upload_from_filename :: "string option"

datatype call =
    Call_download string string string
  | Call_translate string string
  | Call_upload "string option" string string

record world =
  scratch :: "string set"
  stdout :: "string list"
  calls :: "call list"

datatype outcome = Returned | Raised string

datatype 'a flow = Next 'a | Return | Raise string

definition print :: "string \<Rightarrow> world \<Rightarrow> world" where
  "print line w = w\<lparr>stdout := stdout w @ [line]\<rparr>"

definition os_path_exists :: "string \<Rightarrow> world \<Rightarrow> bool" where
  "os_path_exists p w = (p \<in> scratch w)"

definition os_remove :: "string \<Rightarrow> world \<Rightarrow> world" where
  "os_remove p w = w\<lparr>scratch := scratch w - {p}\<rparr>"

definition write_file :: "bool \<Rightarrow> string \<Rightarrow> world \<Rightarrow> world" where
  "write_file written p w = (if written then w\<lparr>scratch := insert p (scratch w)\<rparr> else w)"

definition record_call :: "call \<Rightarrow> world \<Rightarrow> world" where
  "record_call c w = w\<lparr>calls := calls w @ [c]\<rparr>"

section \<open>The function, phase by phase\<close>

definition gcs_zip_path :: "string \<Rightarrow> string \<Rightarrow> string" where
  "gcs_zip_path bucket_name file_name = ''/vsizip//vsigs/'' @ bucket_name @ ''/'' @ file_name"

definition local_zip_path :: "string \<Rightarrow> string" where
  "local_zip_path file_name = ''/tmp/'' @ file_name"

definition output_filename_stem :: "string \<Rightarrow> string" where
  "output_filename_stem file_name = stem (Path file_name)"

definition temp_output_path :: "string \<Rightarrow> string" where
  "temp_output_path file_name = ''/tmp/'' @ output_filename_stem file_name @ ''.parquet''"

definition output_blob_name :: "string \<Rightarrow> string" where
  "output_blob_name file_name = output_filename_stem file_name @ ''.parquet''"

abbreviation is_gdb :: "string \<Rightarrow> bool" where
  "is_gdb f \<equiv> endswith (lower f) ''.gdb/''"

abbreviation is_shp :: "string \<Rightarrow> bool" where
  "is_shp f \<equiv> endswith (lower f) ''.shp''"

abbreviation is_csv :: "string \<Rightarrow> bool" where
  "is_csv f \<equiv> endswith (lower f) ''.csv''"

text \<open>
  Lines 50 to 67: the \<open>if\<close> / \<open>elif\<close> / \<open>elif\<close> chain over the entry names, with
  \<open>source_data_path\<close> still \<open>None\<close> on entry. \<open>next((f for f in file_list if ...), None)\<close> is
  \<open>find\<close>. The result is the new \<open>source_data_path\<close> and the line printed, if any.
\<close>

definition find_source :: "string \<Rightarrow> string list \<Rightarrow> string option \<times> string list" where
  "find_source zip_path file_list =
     (let source_data_path = None;
          gdb_path = find (\<lambda>f. is_gdb f) file_list
      in if truthy gdb_path then
           (let p = zip_path @ ''/'' @ path_str (parent (Path (the gdb_path)))
            in (Some p, [''Found Geodatabase: '' @ p]))
         else if \<not> truthy source_data_path then
           (let shp_path = find (\<lambda>f. is_shp f) file_list
            in if truthy shp_path then
                 (let p = zip_path @ ''/'' @ the shp_path
                  in (Some p, [''Found Shapefile: '' @ p]))
               else (source_data_path, []))
         else if \<not> truthy source_data_path then
           (let csv_path = find (\<lambda>f. is_csv f) file_list
            in if truthy csv_path then
                 (let p = zip_path @ ''/'' @ the csv_path
                  in (Some p, [''Found CSV: '' @ p]))
               else (source_data_path, []))
         else (source_data_path, []))"

text \<open>
  Lines 38 to 67, the body of the \<open>try\<close>: download the archive to scratch storage, open it,
  list it, choose the source. \<open>Inl e\<close> is an exception with message \<open>e\<close> leaving the body.
\<close>

definition inspect_zip ::
  "env \<Rightarrow> string \<Rightarrow> string \<Rightarrow> world \<Rightarrow> (string + string option) \<times> world" where
  "inspect_zip env bucket_name file_name w =
     (let w = record_call (Call_download bucket_name file_name (local_zip_path file_name)) w
      in case download_to_filename env of
           Download_raises e partial \<Rightarrow> (Inl e, write_file partial (local_zip_path file_name) w)
         | Download_ok \<Rightarrow>
             (let w = write_file True (local_zip_path file_name) w
              in case ZipFile_namelist env of
                   Inl e \<Rightarrow> (Inl e, w)
                 | Inr file_list \<Rightarrow>
                     (case find_source (gcs_zip_path bucket_name file_name) file_list of
                        (source_data_path, printed) \<Rightarrow>
                          (Inr source_data_path, w\<lparr>stdout := stdout w @ printed\<rparr>))))"

text \<open>
  Lines 29 to 80: the \<open>try\<close> with its \<open>except Exception\<close> handler (print and return) and its
  \<open>finally\<close> (remove the local archive copy if it exists), then the check that a source was
  found. \<open>Return\<close> is the function returning; \<open>Next p\<close> falls through with the source path.
\<close>

definition locator :: "env \<Rightarrow> event \<Rightarrow> world \<Rightarrow> string flow \<times> world" where
  "locator env event w =
     (let bucket_name = bucket event;
          file_name = name event;
          w = print (''Processing file: '' @ file_name @ '' from bucket: '' @ bucket_name @ ''.'') w
      in case inspect_zip env bucket_name file_name w of
           (r, w) \<Rightarrow>
             (let w = (case r of
                         Inl e \<Rightarrow> print (''Error inspecting zip file '' @ file_name @ '': '' @ e) w
                       | Inr _ \<Rightarrow> w);
                  w = (if os_path_exists (local_zip_path file_name) w
                       then os_remove (local_zip_path file_name) w else w)
              in case r of
                   Inl e \<Rightarrow> (Return, w)
                 | Inr source_data_path \<Rightarrow>
                     if \<not> truthy source_data_path then
                       (Return,
                        print (''No convertible data source (GDB, Shapefile, CSV) found in ''
                               @ file_name @ ''.'') w)
                     else (Next (the source_data_path), w)))"

text \<open>
  Lines 90 to 103 call \<open>gdal.VectorTranslateOptions\<close> with the keywords \<open>format\<close>,
  \<open>layerCreationOptions\<close>, \<open>accessMode\<close>, \<open>makeValid\<close> and \<open>gdal_config_options\<close>. That
  function of the GDAL bindings has a fixed list of keyword parameters and no catch-all one;
  \<open>gdal_config_options\<close> is not among them, so Python raises \<open>TypeError\<close> at the call, with
  the message built by \<open>unexpected_keyword\<close>. The other four keywords are parameters of the
  function.
\<close>

definition unexpected_keyword :: "string \<Rightarrow> string \<Rightarrow> string" where
  "unexpected_keyword f k =
     f @ ''() got an unexpected keyword argument '' @ [CHR 0x27] @ k @ [CHR 0x27]"

definition VectorTranslateOptions :: "string list \<Rightarrow> string + unit" where
  "VectorTranslateOptions keywords =
     (if ''gdal_config_options'' \<in> set keywords then
        Inl (unexpected_keyword ''VectorTranslateOptions'' ''gdal_config_options'')
      else Inr ())"

text \<open>
  Lines 83 to 111: the line printed before the conversion, the options call, which stands
  outside every \<open>try\<close> so that its exception leaves the function (\<open>Raise\<close>), and the call of
  \<open>gdal.VectorTranslate\<close> under \<open>try\<close> / \<open>except Exception\<close>. That call touches scratch storage
  only at the output path.
\<close>

definition converter :: "env \<Rightarrow> event \<Rightarrow> string \<Rightarrow> world \<Rightarrow> unit flow \<times> world" where
  "converter env event source_data_path w =
     (let file_name = name event;
          w = print (''Converting '' @ source_data_path @ '' to '' @ temp_output_path file_name
                     @ ''...'') w
      in case VectorTranslateOptions
                [''format'', ''layerCreationOptions'', ''accessMode'', ''makeValid'',
                 ''gdal_config_options''] of
           Inl e \<Rightarrow> (Raise e, w)
         | Inr options \<Rightarrow>
             (let w = record_call (Call_translate (temp_output_path file_name) source_data_path) w
              in case VectorTranslate env of
                   Translate_returns written \<Rightarrow>
                     (Next (),
                      print ''Conversion successful.''
                        (write_file written (temp_output_path file_name) w))
                 | Translate_raises e written \<Rightarrow>
                     (Return,
                      print (''Error during GDAL conversion: '' @ e)
                        (write_file written (temp_output_path file_name) w))))"

text \<open>
  \<open>storage_client.bucket(name)\<close> validates the name before any request: \<open>None\<close> passes, and
  a string must start and end with an alphanumeric character (\<open>str.isalnum\<close>, here on code
  points below 256: digits, letters, and the Latin-1 letters, superscript digits and
  fractions). On the empty string the check indexes its first character and raises
  \<open>IndexError\<close>; on other bad names it raises \<open>ValueError\<close>.
\<close>

definition isalnum :: "char \<Rightarrow> bool" where
  "isalnum c =
     (let n = (of_char c :: nat)
      in (48 \<le> n \<and> n \<le> 57) \<or> (65 \<le> n \<and> n \<le> 90) \<or> (97 \<le> n \<and> n \<le> 122)
         \<or> n \<in> {170, 178, 179, 181, 185, 186, 188, 189, 190}
         \<or> (192 \<le> n \<and> n \<noteq> 215 \<and> n \<noteq> 247))"

definition validate_name :: "string option \<Rightarrow> string + unit" where
  "validate_name bucket_name =
     (case bucket_name of
        None \<Rightarrow> Inr ()
      | Some nm \<Rightarrow>
          if nm = [] then Inl ''string index out of range''
          else if \<not> (isalnum (hd nm) \<and> isalnum (last nm)) then
            Inl ''Bucket names must start and end with a number or letter.''
          else Inr ())"

text \<open>
  Lines 114 to 127: the existence check, the handle of the output bucket, the upload, and the
  removal of the output file. No exception is handled here.
\<close>

definition publisher :: "env \<Rightarrow> event \<Rightarrow> world \<Rightarrow> outcome \<times> world" where
  "publisher env event w =
     (let file_name = name event
      in if \<not> os_path_exists (temp_output_path file_name) w then
           (Returned, print ''Conversion failed, output file not created.'' w)
         else
           (case validate_name (OUTPUT_BUCKET_NAME env) of
              Inl e \<Rightarrow> (Raised e, w)
            | Inr output_bucket \<Rightarrow>
                (let w = print (''Uploading '' @ output_blob_name file_name @ '' to bucket ''
                                @ fmt (OUTPUT_BUCKET_NAME env) @ ''...'') w;
                     w = record_call (Call_upload (OUTPUT_BUCKET_NAME env)
                                        (output_blob_name file_name)
                                        (temp_output_path file_name)) w
                 in case upload_from_filename env of
                      Some e \<Rightarrow> (Raised e, w)
                    | None \<Rightarrow>
                        (Returned,
                         os_remove (temp_output_path file_name) (print ''Upload complete.'' w)))))"

definition convert_to_geoparquet :: "env \<Rightarrow> event \<Rightarrow> world \<Rightarrow> outcome \<times> world" where
  "convert_to_geoparquet env event w =
     (let file_name = name event
      in if \<not> endswith (lower file_name) ''.zip'' then
           (Returned, print (''File '' @ file_name @ '' is not a zip file. Skipping.'') w)
         else
           (case locator env event w of
              (Return, w) \<Rightarrow> (Returned, w)
            | (Raise e, w) \<Rightarrow> (Raised e, w)
            | (Next source_data_path, w) \<Rightarrow>
                (case converter env event source_data_path w of
                   (Return, w) \<Rightarrow> (Returned, w)
                 | (Raise e, w) \<Rightarrow> (Raised e, w)
                 | (Next u, w) \<Rightarrow> publisher env event w)))"

section \<open>Facts about the helpers and the phases\<close>

lemmas world_ops = print_def record_call_def write_file_def os_path_exists_def os_remove_def

lemma endswith_nonempty: "endswith s suf \<Longrightarrow> suf \<noteq> [] \<Longrightarrow> s \<noteq> []"
  by (auto simp: endswith_def)

lemma lower_nonempty: "lower s \<noteq> [] \<Longrightarrow> s \<noteq> []"
  by (auto simp: lower_def)

lemma find_source_gdb:
  assumes "find (\<lambda>f. is_gdb f) file_list = Some g"
  shows "find_source z file_list =
           (Some (z @ ''/'' @ path_str (parent (Path g))),
            [''Found Geodatabase: '' @ z @ ''/'' @ path_str (parent (Path g))])"
proof -
  from assms have "is_gdb g" by (auto simp: find_Some_iff)
  then have "g \<noteq> []" using endswith_nonempty lower_nonempty by fastforce
  with assms show ?thesis by (simp add: find_source_def Let_def)
qed

lemma find_source_shp:
  assumes "find (\<lambda>f. is_gdb f) file_list = None" and "find (\<lambda>f. is_shp f) file_list = Some s"
  shows "find_source z file_list = (Some (z @ ''/'' @ s), [''Found Shapefile: '' @ z @ ''/'' @ s])"
proof -
  from assms(2) have "is_shp s" by (auto simp: find_Some_iff)
  then have "s \<noteq> []" using endswith_nonempty lower_nonempty by fastforce
  with assms show ?thesis by (simp add: find_source_def Let_def)
qed

lemma find_source_none:
  assumes "find (\<lambda>f. is_gdb f) file_list = None" and "find (\<lambda>f. is_shp f) file_list = None"
  shows "find_source z file_list = (None, [])"
  using assms by (simp add: find_source_def Let_def)

lemma find_source_cases:
  "find_source z file_list =
     (case find (\<lambda>f. is_gdb f) file_list of
        Some g \<Rightarrow> (Some (z @ ''/'' @ path_str (parent (Path g))),
                   [''Found Geodatabase: '' @ z @ ''/'' @ path_str (parent (Path g))])
      | None \<Rightarrow>
         (case find (\<lambda>f. is_shp f) file_list of
            Some s \<Rightarrow> (Some (z @ ''/'' @ s), [''Found Shapefile: '' @ z @ ''/'' @ s])
          | None \<Rightarrow> (None, [])))"
  by (simp add: find_source_gdb find_source_shp find_source_none split: option.splits)

lemma find_source_truthy: "fst (find_source z file_list) = Some p \<Longrightarrow> p \<noteq> []"
  by (auto simp: find_source_cases split: option.splits)

lemma endswith_append:
  "length suf \<le> length b \<Longrightarrow> endswith (a @ b) suf = endswith b suf"
  by (auto simp: endswith_def)

lemma lower_append: "lower (a @ b) = lower a @ lower b"
  by (simp add: lower_def)

lemma temp_output_not_archive:
  assumes "endswith (lower f) ''.zip''"
  shows "temp_output_path f \<noteq> local_zip_path f"
proof
  assume "temp_output_path f = local_zip_path f"
  then have "f = output_filename_stem f @ ''.parquet''"
    by (simp add: temp_output_path_def local_zip_path_def)
  then have "lower f = lower (output_filename_stem f) @ lower ''.parquet''"
    using lower_append by metis
  then have "endswith (lower f) ''.zip'' = endswith (lower ''.parquet'') ''.zip''"
    by (simp add: endswith_append lower_def)
  with assms show False by (simp add: endswith_def lower_def)
qed

lemma locator_calls:
  "calls (snd (locator env event w)) =
     calls w @ [Call_download (bucket event) (name event) (local_zip_path (name event))]"
  by (auto simp: locator_def inspect_zip_def Let_def world_ops
           split: download_result.splits sum.splits prod.splits)

lemma locator_scratch:
  "scratch (snd (locator env event w)) = scratch w - {local_zip_path (name event)}"
  by (auto simp: locator_def inspect_zip_def Let_def world_ops
           split: download_result.splits sum.splits prod.splits)

lemma locator_Next:
  assumes "fst (locator env event w) = Next src"
  shows "\<exists>file_list. download_to_filename env = Download_ok \<and> ZipFile_namelist env = Inr file_list
           \<and> fst (find_source (gcs_zip_path (bucket event) (name event)) file_list) = Some src"
  using assms
  by (auto simp: locator_def inspect_zip_def Let_def
           split: download_result.splits sum.splits prod.splits if_splits elim: truthy.elims)

lemma locator_listed:
  assumes "download_to_filename env = Download_ok" and "ZipFile_namelist env = Inr file_list"
  shows "locator env event w =
     (case find_source (gcs_zip_path (bucket event) (name event)) file_list of
        (source_data_path, printed) \<Rightarrow>
          (let w' = w\<lparr>scratch := scratch w - {local_zip_path (name event)},
                      stdout := stdout w @ [''Processing file: '' @ name event @ '' from bucket: ''
                                             @ bucket event @ ''.''] @ printed,
                      calls := calls w @ [Call_download (bucket event) (name event)
                                            (local_zip_path (name event))]\<rparr>
           in if \<not> truthy source_data_path then
                (Return, print (''No convertible data source (GDB, Shapefile, CSV) found in ''
                                @ name event @ ''.'') w')
              else (Next (the source_data_path), w')))"
  using assms
  by (auto simp: locator_def inspect_zip_def Let_def world_ops split: prod.splits)

lemma locator_failed:
  assumes "download_to_filename env = Download_raises e partial
           \<or> (download_to_filename env = Download_ok \<and> ZipFile_namelist env = Inl e)"
  shows "locator env event w =
     (Return,
      w\<lparr>scratch := scratch w - {local_zip_path (name event)},
        stdout := stdout w @ [''Processing file: '' @ name event @ '' from bucket: ''
                               @ bucket event @ ''.'',
                              ''Error inspecting zip file '' @ name event @ '': '' @ e],
        calls := calls w @ [Call_download (bucket event) (name event)
                              (local_zip_path (name event))]\<rparr>)"
  using assms
  by (auto simp: locator_def inspect_zip_def Let_def world_ops)

lemma options_call_raises:
  "VectorTranslateOptions
     [''format'', ''layerCreationOptions'', ''accessMode'', ''makeValid'', ''gdal_config_options'']
   = Inl (unexpected_keyword ''VectorTranslateOptions'' ''gdal_config_options'')"
  by (simp add: VectorTranslateOptions_def)

lemma converter_raises:
  "converter env event src w =
     (Raise (unexpected_keyword ''VectorTranslateOptions'' ''gdal_config_options''),
      print (''Converting '' @ src @ '' to '' @ temp_output_path (name event) @ ''...'') w)"
  by (simp add: converter_def Let_def options_call_raises)

lemma converter_scratch:
  "scratch (snd (converter env event src w)) \<subseteq> insert (temp_output_path (name event)) (scratch w)"
  by (auto simp: converter_def Let_def world_ops split: translate_result.splits sum.splits)

lemma publisher_scratch:
  "scratch (snd (publisher env event w)) \<subseteq> scratch w"
  by (auto simp: publisher_def Let_def world_ops split: option.splits sum.splits)

lemma run_after_locator:
  assumes "endswith (lower (name event)) ''.zip''"
      and "fst (locator env event w) = Next src"
  shows "convert_to_geoparquet env event w =
           (Raised (unexpected_keyword ''VectorTranslateOptions'' ''gdal_config_options''),
            print (''Converting '' @ src @ '' to '' @ temp_output_path (name event) @ ''...'')
              (snd (locator env event w)))"
  using assms
  by (cases "locator env event w") (simp add: convert_to_geoparquet_def Let_def converter_raises)

text \<open>
  The last phase taken alone, from a world in which the output file exists and with an
  output bucket name that passes validation.
\<close>

lemma publisher_missing_output:
  assumes "\<not> os_path_exists (temp_output_path (name event)) w"
  shows "publisher env event w =
           (Returned, print ''Conversion failed, output file not created.'' w)"
  using assms by (simp add: publisher_def Let_def)

lemma publisher_upload_raises:
  assumes "os_path_exists (temp_output_path (name event)) w"
      and "validate_name (OUTPUT_BUCKET_NAME env) = Inr ()"
      and "upload_from_filename env = Some e"
  shows "fst (publisher env event w) = Raised e"
    and "calls (snd (publisher env event w)) =
           calls w @ [Call_upload (OUTPUT_BUCKET_NAME env) (output_blob_name (name event))
                        (temp_output_path (name event))]"
    and "temp_output_path (name event) \<in> scratch (snd (publisher env event w))"
  using assms by (simp_all add: publisher_def Let_def world_ops)

lemma publisher_upload_returns:
  assumes "os_path_exists (temp_output_path (name event)) w"
      and "validate_name (OUTPUT_BUCKET_NAME env) = Inr ()"
      and "upload_from_filename env = None"
  shows "fst (publisher env event w) = Returned"
    and "temp_output_path (name event) \<notin> scratch (snd (publisher env event w))"
  using assms by (simp_all add: publisher_def Let_def world_ops)

lemma validate_name_examples:
  "validate_name (Some ''parquet-out'') = Inr ()"
  "validate_name None = Inr ()"
  "validate_name (Some []) = Inl ''string index out of range''"
  "validate_name (Some ''_out'') = Inl ''Bucket names must start and end with a number or letter.''"
  by (simp_all add: validate_name_def isalnum_def)

lemma find_filter_same: "find P (filter P xs) = find P xs"
  by (induction xs) auto

text \<open>Splitting a joined list of slash-free components gives the components back.\<close>

lemma split_sep_plain: "c \<notin> set p \<Longrightarrow> split_sep c p = [p]"
  by (induction p) auto

lemma split_sep_at: "c \<notin> set p \<Longrightarrow> split_sep c (p @ c # rest) = p # split_sep c rest"
  by (induction p) auto

lemma split_join:
  assumes "\<forall>x \<in> set cs. CHR ''/'' \<notin> set x" and "cs \<noteq> []"
  shows "split_sep CHR ''/'' (join_sep ''/'' cs @ ''/'') = cs @ [[]]"
  using assms
proof (induction "''/''" cs rule: join_sep.induct)
  case 1
  then show ?case by simp
next
  case (2 p)
  then show ?case using split_sep_at [of "CHR ''/''" p "[]"] by simp
next
  case (3 p q ps)
  then show ?case using split_sep_at [of "CHR ''/''" p "join_sep ''/'' (q # ps) @ ''/''"] by simp
qed

lemma join_sep_hd:
  assumes "cs \<noteq> []" and "hd cs \<noteq> []"
  shows "join_sep sep cs \<noteq> [] \<and> hd (join_sep sep cs) = hd (hd cs)"
  using assms by (induction sep cs rule: join_sep.induct) auto

lemma Path_of_components:
  assumes "\<forall>c \<in> set cs. c \<noteq> [] \<and> c \<noteq> ''.'' \<and> CHR ''/'' \<notin> set c" and "cs \<noteq> []"
  shows "Path (join_sep ''/'' cs @ ''/'') = \<lparr>path_root = [], path_names = cs\<rparr>"
proof -
  from assms have h: "hd cs \<noteq> []" "hd cs \<in> set cs" by (cases cs; simp)+
  with assms(1) have "CHR ''/'' \<notin> set (hd cs)" by blast
  moreover have "hd (hd cs) \<in> set (hd cs)" using h by simp
  ultimately have "hd (hd cs) \<noteq> CHR ''/''" by metis
  with join_sep_hd [OF assms(2) h(1), of "''/''"]
  have "hd (join_sep ''/'' cs @ ''/'') \<noteq> CHR ''/''" by simp
  then have "splitroot (join_sep ''/'' cs @ ''/'') = ([], join_sep ''/'' cs @ ''/'')"
    by (simp add: splitroot_def)
  moreover have "split_sep CHR ''/'' (join_sep ''/'' cs @ ''/'') = cs @ [[]]"
    using assms by (intro split_join) auto
  moreover have "filter (\<lambda>x. x \<noteq> [] \<and> x \<noteq> ''.'') cs = cs"
    using assms(1) by (intro filter_True) auto
  ultimately show ?thesis by (simp add: Path_def)
qed

lemma parent_of_marker:
  assumes "\<forall>c \<in> set (dirs @ [base]). c \<noteq> [] \<and> c \<noteq> ''.'' \<and> CHR ''/'' \<notin> set c"
  shows "path_str (parent (Path (join_sep ''/'' (dirs @ [base]) @ ''/''))) =
           (if dirs = [] then ''.'' else join_sep ''/'' dirs)"
proof -
  have "Path (join_sep ''/'' (dirs @ [base]) @ ''/'') = \<lparr>path_root = [], path_names = dirs @ [base]\<rparr>"
    using assms by (intro Path_of_components) auto
  moreover have "dirs \<noteq> [] \<Longrightarrow> join_sep ''/'' dirs \<noteq> []"
    using assms join_sep_hd [of dirs "''/''"] by (cases dirs) auto
  ultimately show ?thesis by (auto simp: parent_def path_str_def Let_def)
qed

lemmas eval_defs =
  convert_to_geoparquet_def locator_def inspect_zip_def find_source_def converter_def
  publisher_def lower_def endswith_def world_ops local_zip_path_def gcs_zip_path_def
  temp_output_path_def output_blob_name_def output_filename_stem_def stem_def Path_def
  splitroot_def path_name_def path_str_def parent_def rfind_def VectorTranslateOptions_def
  validate_name_def isalnum_def Let_def

text \<open>The helpers on concrete names, as Python computes them.\<close>

lemma lower_examples:
  "lower ''Parcels.GDB/'' = ''parcels.gdb/''" "lower ''roads_2024.Zip'' = ''roads_2024.zip''"
  by (simp_all add: lower_def)

lemma parent_examples:
  "path_str (parent (Path ''parcels.gdb/'')) = ''.''"
  "path_str (parent (Path ''data/county/parcels.gdb/'')) = ''data/county''"
  "path_str (parent (Path ''/parcels.gdb/'')) = ''/''"
  "path_str (parent (Path ''./a//parcels.gdb/'')) = ''a''"
  by (simp_all add: path_str_def parent_def Path_def splitroot_def)

lemma stem_examples:
  "output_filename_stem ''roads.zip'' = ''roads''"
  "output_filename_stem ''uploads/2024/roads.v2.ZIP'' = ''roads.v2''"
  "output_filename_stem ''.zip'' = ''.zip''"
  by (simp_all add: eval_defs)

section \<open>The claims\<close>

text \<open>
  C1. An archive whose only entry is \<open>roads.csv\<close> should have that entry chosen and
  \<open>roads.parquet\<close> produced and uploaded. The code does not do so: the CSV scan sits under a
  second \<open>elif not source_data_path\<close> that repeats the condition of the first, so it is never
  reached. In an environment where the download succeeds, the invocation on \<open>roads.zip\<close>
  holding only \<open>roads.csv\<close> prints that no convertible data source was found and returns
  after the download, with no call of the converter and no upload.
\<close>

theorem csv_only_archive_not_converted:
  "convert_to_geoparquet
     \<lparr>OUTPUT_BUCKET_NAME = Some ''out'', download_to_filename = Download_ok,
      ZipFile_namelist = Inr [''roads.csv''], VectorTranslate = Translate_returns True,
      upload_from_filename = None\<rparr>
     \<lparr>bucket = ''bucket'', name = ''roads.zip''\<rparr>
     \<lparr>scratch = {}, stdout = [], calls = []\<rparr>
   = (Returned,
      \<lparr>scratch = {},
       stdout = [''Processing file: roads.zip from bucket: bucket.'',
                 ''No convertible data source (GDB, Shapefile, CSV) found in roads.zip.''],
       calls = [Call_download ''bucket'' ''roads.zip'' ''/tmp/roads.zip'']\<rparr>)"
  by (simp add: eval_defs)

text \<open>
  C2. When the entry list holds at least one geodatabase marker (an entry whose lower-cased
  name ends with \<open>.gdb/\<close>), the locator chooses the first such entry \<open>g\<close>: the source path it
  hands on is the archive address followed by the parent directory of \<open>g\<close>, and the only line
  printed by the scan is the geodatabase one. The shapefile and CSV scans play no part: the
  choice is the one made on the list with every other entry removed.
\<close>

theorem geodatabase_has_priority:
  assumes "download_to_filename env = Download_ok"
      and "ZipFile_namelist env = Inr file_list"
      and "f \<in> set file_list" and "is_gdb f"
  shows "\<exists>g. find (\<lambda>f. is_gdb f) file_list = Some g \<and> is_gdb g
           \<and> locator env event w =
               (Next (gcs_zip_path (bucket event) (name event) @ ''/'' @ path_str (parent (Path g))),
                w\<lparr>scratch := scratch w - {local_zip_path (name event)},
                  stdout := stdout w @
                    [''Processing file: '' @ name event @ '' from bucket: '' @ bucket event @ ''.'',
                     ''Found Geodatabase: '' @ gcs_zip_path (bucket event) (name event) @ ''/''
                       @ path_str (parent (Path g))],
                  calls := calls w @ [Call_download (bucket event) (name event)
                                        (local_zip_path (name event))]\<rparr>)
           \<and> find_source (gcs_zip_path (bucket event) (name event)) file_list =
               find_source (gcs_zip_path (bucket event) (name event))
                 (filter (\<lambda>f. is_gdb f) file_list)"
proof -
  from assms(3,4) obtain g where g: "find (\<lambda>f. is_gdb f) file_list = Some g"
    by (cases "find (\<lambda>f. is_gdb f) file_list") (auto simp: find_None_iff)
  then have gdb: "is_gdb g" by (auto simp: find_Some_iff)
  let ?z = "gcs_zip_path (bucket event) (name event)"
  have loc: "locator env event w =
               (Next (?z @ ''/'' @ path_str (parent (Path g))),
                w\<lparr>scratch := scratch w - {local_zip_path (name event)},
                  stdout := stdout w @
                    [''Processing file: '' @ name event @ '' from bucket: '' @ bucket event @ ''.'',
                     ''Found Geodatabase: '' @ ?z @ ''/'' @ path_str (parent (Path g))],
                  calls := calls w @ [Call_download (bucket event) (name event)
                                        (local_zip_path (name event))]\<rparr>)"
    using locator_listed [OF assms(1,2), of event w] find_source_gdb [OF g, of ?z]
    by (simp add: Let_def)
  have "find_source ?z file_list = find_source ?z (filter (\<lambda>f. is_gdb f) file_list)"
    using g by (simp add: find_source_gdb find_filter_same)
  with g gdb loc show ?thesis by blast
qed

theorem geodatabase_has_priority_witness:
  "''data/parcels_2024.gdb/'' \<in> set [''parcels_2024.shp'', ''data/parcels_2024.gdb/'', ''owners.csv'']
   \<and> is_gdb ''data/parcels_2024.gdb/''
   \<and> is_shp ''parcels_2024.shp'' \<and> is_csv ''owners.csv''
   \<and> locator
        \<lparr>OUTPUT_BUCKET_NAME = Some ''out'', download_to_filename = Download_ok,
         ZipFile_namelist = Inr [''parcels_2024.shp'', ''data/parcels_2024.gdb/'', ''owners.csv''],
         VectorTranslate = Translate_returns True, upload_from_filename = None\<rparr>
        \<lparr>bucket = ''bucket'', name = ''parcels_2024.zip''\<rparr>
        \<lparr>scratch = {}, stdout = [], calls = []\<rparr>
     = (Next ''/vsizip//vsigs/bucket/parcels_2024.zip/data'',
        \<lparr>scratch = {},
         stdout = [''Processing file: parcels_2024.zip from bucket: bucket.'',
                   ''Found Geodatabase: /vsizip//vsigs/bucket/parcels_2024.zip/data''],
         calls = [Call_download ''bucket'' ''parcels_2024.zip'' ''/tmp/parcels_2024.zip'']\<rparr>)"
proof -
  let ?env = "\<lparr>OUTPUT_BUCKET_NAME = Some ''out'', download_to_filename = Download_ok,
         ZipFile_namelist = Inr [''parcels_2024.shp'', ''data/parcels_2024.gdb/'', ''owners.csv''],
         VectorTranslate = Translate_returns True, upload_from_filename = None\<rparr>"
  let ?ev = "\<lparr>bucket = ''bucket'', name = ''parcels_2024.zip''\<rparr>"
  let ?w = "\<lparr>scratch = {}, stdout = [], calls = []\<rparr>"
  have h2: "download_to_filename ?env = Download_ok" by simp
  have h3: "ZipFile_namelist ?env = Inr [''parcels_2024.shp'', ''data/parcels_2024.gdb/'', ''owners.csv'']"
    by simp
  have h4: "''data/parcels_2024.gdb/'' \<in> set [''parcels_2024.shp'', ''data/parcels_2024.gdb/'', ''owners.csv'']"
    by simp
  have h5: "is_gdb ''data/parcels_2024.gdb/''" by (simp add: lower_def endswith_def)
  have h6: "is_shp ''parcels_2024.shp'' \<and> is_csv ''owners.csv''" by (simp add: lower_def endswith_def)
  from geodatabase_has_priority [OF h2 h3 h4 h5, of ?ev ?w]
  obtain g where g: "find (\<lambda>f. is_gdb f) [''parcels_2024.shp'', ''data/parcels_2024.gdb/'', ''owners.csv''] = Some g"
    and loc: "locator ?env ?ev ?w =
               (Next (gcs_zip_path (bucket ?ev) (name ?ev) @ ''/'' @ path_str (parent (Path g))),
                ?w\<lparr>scratch := scratch ?w - {local_zip_path (name ?ev)},
                  stdout := stdout ?w @
                    [''Processing file: '' @ name ?ev @ '' from bucket: '' @ bucket ?ev @ ''.'',
                     ''Found Geodatabase: '' @ gcs_zip_path (bucket ?ev) (name ?ev) @ ''/''
                       @ path_str (parent (Path g))],
                  calls := calls ?w @ [Call_download (bucket ?ev) (name ?ev)
                                        (local_zip_path (name ?ev))]\<rparr>)"
    by blast
  from g have "g = ''data/parcels_2024.gdb/''" by (simp add: lower_def endswith_def)
  with loc have "locator ?env ?ev ?w
     = (Next ''/vsizip//vsigs/bucket/parcels_2024.zip/data'',
        \<lparr>scratch = {},
         stdout = [''Processing file: parcels_2024.zip from bucket: bucket.'',
                   ''Found Geodatabase: /vsizip//vsigs/bucket/parcels_2024.zip/data''],
         calls = [Call_download ''bucket'' ''parcels_2024.zip'' ''/tmp/parcels_2024.zip'']\<rparr>)"
    by (simp add: gcs_zip_path_def local_zip_path_def path_str_def parent_def Path_def splitroot_def)
  with h4 h5 h6 show ?thesis by blast
qed

text \<open>
  C3. When the download raises, or the download succeeds and opening or listing the archive
  raises, the exception is caught: the function returns normally, having printed the
  processing line and the error line, with the download as its only call and with no local
  archive copy left on scratch storage.
\<close>

theorem inspect_error_is_noop:
  assumes "endswith (lower (name event)) ''.zip''"
      and "download_to_filename env = Download_raises e partial
           \<or> (download_to_filename env = Download_ok \<and> ZipFile_namelist env = Inl e)"
  shows "convert_to_geoparquet env event w =
     (Returned,
      w\<lparr>scratch := scratch w - {local_zip_path (name event)},
        stdout := stdout w @ [''Processing file: '' @ name event @ '' from bucket: ''
                               @ bucket event @ ''.'',
                              ''Error inspecting zip file '' @ name event @ '': '' @ e],
        calls := calls w @ [Call_download (bucket event) (name event)
                              (local_zip_path (name event))]\<rparr>)"
  using assms(1) locator_failed [OF assms(2), of event w]
  by (simp add: convert_to_geoparquet_def Let_def)

theorem inspect_error_is_noop_witness:
  "endswith (lower (name \<lparr>bucket = ''bucket'', name = ''roads.zip''\<rparr>)) ''.zip''
   \<and> convert_to_geoparquet
        \<lparr>OUTPUT_BUCKET_NAME = Some ''out'', download_to_filename = Download_ok,
         ZipFile_namelist = Inl ''File is not a zip file'',
         VectorTranslate = Translate_returns True, upload_from_filename = None\<rparr>
        \<lparr>bucket = ''bucket'', name = ''roads.zip''\<rparr>
        \<lparr>scratch = {}, stdout = [], calls = []\<rparr>
     = (Returned,
        \<lparr>scratch = {},
         stdout = [''Processing file: roads.zip from bucket: bucket.'',
                   ''Error inspecting zip file roads.zip: File is not a zip file''],
         calls = [Call_download ''bucket'' ''roads.zip'' ''/tmp/roads.zip'']\<rparr>)"
proof -
  have h: "endswith (lower (name \<lparr>bucket = ''bucket'', name = ''roads.zip''\<rparr>)) ''.zip''"
    by (simp add: lower_def endswith_def)
  from inspect_error_is_noop [OF h,
      of "\<lparr>OUTPUT_BUCKET_NAME = Some ''out'', download_to_filename = Download_ok,
         ZipFile_namelist = Inl ''File is not a zip file'',
         VectorTranslate = Translate_returns True, upload_from_filename = None\<rparr>"
         "''File is not a zip file''" False "\<lparr>scratch = {}, stdout = [], calls = []\<rparr>"]
  show ?thesis using h by (simp add: local_zip_path_def)
qed

text \<open>
  C4. Whenever the object name passes the extension test, so that the download step is
  reached, the local archive copy \<open>/tmp/<name>\<close> is not on scratch storage when the invocation
  ends, whatever the download, the archive, the conversion and the upload do, and whether
  the function returns or raises.
\<close>

theorem archive_copy_removed:
  assumes "endswith (lower (name event)) ''.zip''"
  shows "local_zip_path (name event) \<notin> scratch (snd (convert_to_geoparquet env event w))"
proof -
  let ?l = "local_zip_path (name event)"
  obtain r1 w1 where loc: "locator env event w = (r1, w1)" by (cases "locator env event w")
  have w1: "?l \<notin> scratch w1"
    using locator_scratch [of env event w] loc by simp
  show ?thesis
  proof (cases r1)
    case Return
    with assms loc w1 show ?thesis by (simp add: convert_to_geoparquet_def Let_def)
  next
    case (Raise e)
    with assms loc w1 show ?thesis by (simp add: convert_to_geoparquet_def Let_def)
  next
    case (Next src)
    obtain r2 w2 where conv: "converter env event src w1 = (r2, w2)"
      by (cases "converter env event src w1")
    have w2: "?l \<notin> scratch w2"
      using converter_scratch [of env event src w1] conv w1 temp_output_not_archive [OF assms]
      by auto
    show ?thesis
    proof (cases r2)
      case Return
      with assms loc \<open>r1 = Next src\<close> conv w2 show ?thesis
        by (simp add: convert_to_geoparquet_def Let_def)
    next
      case (Raise e)
      with assms loc \<open>r1 = Next src\<close> conv w2 show ?thesis
        by (simp add: convert_to_geoparquet_def Let_def)
    next
      case (Next u)
      have "?l \<notin> scratch (snd (publisher env event w2))"
        using publisher_scratch [of env event w2] w2 by auto
      with assms loc \<open>r1 = Next src\<close> conv Next show ?thesis
        by (simp add: convert_to_geoparquet_def Let_def)
    qed
  qed
qed

theorem archive_copy_removed_witness:
  "endswith (lower (name \<lparr>bucket = ''bucket'', name = ''roads.zip''\<rparr>)) ''.zip''
   \<and> local_zip_path (name \<lparr>bucket = ''bucket'', name = ''roads.zip''\<rparr>)
       \<notin> scratch (snd (convert_to_geoparquet
            \<lparr>OUTPUT_BUCKET_NAME = Some ''out'', download_to_filename = Download_ok,
             ZipFile_namelist = Inr [''roads.shp'', ''roads.dbf''],
             VectorTranslate = Translate_returns True, upload_from_filename = Some ''503''\<rparr>
            \<lparr>bucket = ''bucket'', name = ''roads.zip''\<rparr>
            \<lparr>scratch = {''/tmp/roads.zip''}, stdout = [], calls = []\<rparr>))"
proof -
  have h: "endswith (lower (name \<lparr>bucket = ''bucket'', name = ''roads.zip''\<rparr>)) ''.zip''"
    by (simp add: lower_def endswith_def)
  from archive_copy_removed [OF h,
      of "\<lparr>OUTPUT_BUCKET_NAME = Some ''out'', download_to_filename = Download_ok,
             ZipFile_namelist = Inr [''roads.shp'', ''roads.dbf''],
             VectorTranslate = Translate_returns True, upload_from_filename = Some ''503''\<rparr>"
         "\<lparr>scratch = {''/tmp/roads.zip''}, stdout = [], calls = []\<rparr>"]
  show ?thesis using h by simp
qed

text \<open>
  C5. For an archive that was downloaded and listed, the source path the locator composes
  is \<open>/vsizip\<close>, \<open>//\<close>, \<open>vsigs/<bucket>\<close>, \<open>/\<close>, the object name, \<open>/\<close> and an intra-archive part.
  With a geodatabase marker \<open>g\<close> first in line, the part is \<open>str(Path(g).parent)\<close>; when \<open>g\<close> is
  \<open>d1/.../dn/base/\<close> with plain components this is \<open>d1/.../dn\<close>, the directory that holds the
  geodatabase, and \<open>.\<close> for a marker at the root of the archive. With no marker and a
  shapefile entry \<open>s\<close> first in line, the part is \<open>s\<close> itself. (A CSV entry is never the
  selected one, see C1.) The composed path is the one the conversion phase receives: it is
  printed in the line that announces the conversion. (The call of
  \<open>gdal.VectorTranslate\<close> itself is not reached, see C7.)
\<close>

theorem source_path_composition:
  assumes "download_to_filename env = Download_ok"
      and "ZipFile_namelist env = Inr file_list"
  shows "(\<forall>g. find (\<lambda>f. is_gdb f) file_list = Some g \<longrightarrow>
            fst (locator env event w) =
              Next (''/vsizip'' @ ''//'' @ ''vsigs/'' @ bucket event @ ''/'' @ name event @ ''/''
                    @ path_str (parent (Path g))))
       \<and> (\<forall>dirs base.
            find (\<lambda>f. is_gdb f) file_list = Some (join_sep ''/'' (dirs @ [base]) @ ''/'')
            \<and> (\<forall>c \<in> set (dirs @ [base]). c \<noteq> [] \<and> c \<noteq> ''.'' \<and> CHR ''/'' \<notin> set c) \<longrightarrow>
            fst (locator env event w) =
              Next (''/vsizip'' @ ''//'' @ ''vsigs/'' @ bucket event @ ''/'' @ name event @ ''/''
                    @ (if dirs = [] then ''.'' else join_sep ''/'' dirs)))
       \<and> (\<forall>s. find (\<lambda>f. is_gdb f) file_list = None \<and> find (\<lambda>f. is_shp f) file_list = Some s \<longrightarrow>
            fst (locator env event w) =
              Next (''/vsizip'' @ ''//'' @ ''vsigs/'' @ bucket event @ ''/'' @ name event @ ''/'' @ s))
       \<and> (\<forall>src. endswith (lower (name event)) ''.zip'' \<and> fst (locator env event w) = Next src \<longrightarrow>
            ''Converting '' @ src @ '' to '' @ temp_output_path (name event) @ ''...''
              \<in> set (stdout (snd (convert_to_geoparquet env event w))))"
proof -
  let ?z = "gcs_zip_path (bucket event) (name event)"
  have z: "?z @ ''/'' = ''/vsizip'' @ ''//'' @ ''vsigs/'' @ bucket event @ ''/'' @ name event @ ''/''"
    by (simp add: gcs_zip_path_def)
  have gdb: "fst (locator env event w) = Next (?z @ ''/'' @ path_str (parent (Path g)))"
    if "find (\<lambda>f. is_gdb f) file_list = Some g" for g
    using locator_listed [OF assms, of event w] find_source_gdb [OF that, of ?z]
    by (simp add: Let_def)
  have shp: "fst (locator env event w) = Next (?z @ ''/'' @ s)"
    if "find (\<lambda>f. is_gdb f) file_list = None" "find (\<lambda>f. is_shp f) file_list = Some s" for s
  proof -
    from that(2) have "is_shp s" by (auto simp: find_Some_iff)
    then have "s \<noteq> []" using endswith_nonempty lower_nonempty by fastforce
    then show ?thesis
      using locator_listed [OF assms, of event w] find_source_shp [OF that, of ?z]
      by (simp add: Let_def)
  qed
  have conv: "''Converting '' @ src @ '' to '' @ temp_output_path (name event) @ ''...''
                \<in> set (stdout (snd (convert_to_geoparquet env event w)))"
    if "endswith (lower (name event)) ''.zip''" "fst (locator env event w) = Next src" for src
    using run_after_locator [OF that] by (simp add: print_def)
  show ?thesis
    using gdb shp conv parent_of_marker z by (auto simp del: append_assoc)
qed

theorem source_path_composition_witness:
  "find (\<lambda>f. is_gdb f) [''parcels_2024.shp'', ''data/county/Parcels_2024.GDB/'', ''owners.csv'']
     = Some (join_sep ''/'' ([''data'', ''county''] @ [''Parcels_2024.GDB'']) @ ''/'')
   \<and> fst (locator
        \<lparr>OUTPUT_BUCKET_NAME = Some ''out'', download_to_filename = Download_ok,
         ZipFile_namelist = Inr [''parcels_2024.shp'', ''data/county/Parcels_2024.GDB/'', ''owners.csv''],
         VectorTranslate = Translate_returns True, upload_from_filename = None\<rparr>
        \<lparr>bucket = ''bucket'', name = ''parcels_2024.zip''\<rparr>
        \<lparr>scratch = {}, stdout = [], calls = []\<rparr>)
       = Next ''/vsizip//vsigs/bucket/parcels_2024.zip/data/county''
   \<and> ''Converting /vsizip//vsigs/bucket/parcels_2024.zip/data/county to /tmp/parcels_2024.parquet...''
       \<in> set (stdout (snd (convert_to_geoparquet
            \<lparr>OUTPUT_BUCKET_NAME = Some ''out'', download_to_filename = Download_ok,
             ZipFile_namelist = Inr [''parcels_2024.shp'', ''data/county/Parcels_2024.GDB/'', ''owners.csv''],
             VectorTranslate = Translate_returns True, upload_from_filename = None\<rparr>
            \<lparr>bucket = ''bucket'', name = ''parcels_2024.zip''\<rparr>
            \<lparr>scratch = {}, stdout = [], calls = []\<rparr>)))
   \<and> find (\<lambda>f. is_gdb f) [''shapes/roads.dbf'', ''shapes/roads.shp'', ''roads.csv''] = None
   \<and> find (\<lambda>f. is_shp f) [''shapes/roads.dbf'', ''shapes/roads.shp'', ''roads.csv'']
       = Some ''shapes/roads.shp''
   \<and> fst (locator
        \<lparr>OUTPUT_BUCKET_NAME = Some ''out'', download_to_filename = Download_ok,
         ZipFile_namelist = Inr [''shapes/roads.dbf'', ''shapes/roads.shp'', ''roads.csv''],
         VectorTranslate = Translate_returns True, upload_from_filename = None\<rparr>
        \<lparr>bucket = ''bucket'', name = ''roads.zip''\<rparr>
        \<lparr>scratch = {}, stdout = [], calls = []\<rparr>)
       = Next ''/vsizip//vsigs/bucket/roads.zip/shapes/roads.shp''"
proof -
  let ?fl1 = "[''parcels_2024.shp'', ''data/county/Parcels_2024.GDB/'', ''owners.csv'']"
  let ?env1 = "\<lparr>OUTPUT_BUCKET_NAME = Some ''out'', download_to_filename = Download_ok,
         ZipFile_namelist = Inr ?fl1,
         VectorTranslate = Translate_returns True, upload_from_filename = None\<rparr>"
  let ?ev1 = "\<lparr>bucket = ''bucket'', name = ''parcels_2024.zip''\<rparr>"
  let ?fl2 = "[''shapes/roads.dbf'', ''shapes/roads.shp'', ''roads.csv'']"
  let ?env2 = "\<lparr>OUTPUT_BUCKET_NAME = Some ''out'', download_to_filename = Download_ok,
         ZipFile_namelist = Inr ?fl2,
         VectorTranslate = Translate_returns True, upload_from_filename = None\<rparr>"
  let ?ev2 = "\<lparr>bucket = ''bucket'', name = ''roads.zip''\<rparr>"
  let ?w = "\<lparr>scratch = {}, stdout = [], calls = []\<rparr>"
  have d1: "download_to_filename ?env1 = Download_ok" and l1: "ZipFile_namelist ?env1 = Inr ?fl1"
    by simp_all
  have d2: "download_to_filename ?env2 = Download_ok" and l2: "ZipFile_namelist ?env2 = Inr ?fl2"
    by simp_all
  have g1: "find (\<lambda>f. is_gdb f) ?fl1
              = Some (join_sep ''/'' ([''data'', ''county''] @ [''Parcels_2024.GDB'']) @ ''/'')"
    by (simp add: lower_def endswith_def)
  have c1: "\<forall>c \<in> set ([''data'', ''county''] @ [''Parcels_2024.GDB'']).
              c \<noteq> [] \<and> c \<noteq> ''.'' \<and> CHR ''/'' \<notin> set c"
    by simp
  have z1: "endswith (lower (name ?ev1)) ''.zip''" by (simp add: lower_def endswith_def)
  have g2: "find (\<lambda>f. is_gdb f) ?fl2 = None" by (simp add: lower_def endswith_def)
  have s2: "find (\<lambda>f. is_shp f) ?fl2 = Some ''shapes/roads.shp''"
    by (simp add: lower_def endswith_def)
  note t1 = source_path_composition [OF d1 l1, of ?ev1 ?w]
  note t2 = source_path_composition [OF d2 l2, of ?ev2 ?w]
  from t1 [THEN conjunct2, THEN conjunct1, rule_format, OF conjI, OF g1 c1]
  have a: "fst (locator ?env1 ?ev1 ?w)
             = Next ''/vsizip//vsigs/bucket/parcels_2024.zip/data/county''"
    by simp
  from t1 [THEN conjunct2, THEN conjunct2, THEN conjunct2, rule_format, OF conjI, OF z1 a]
  have b:
    "''Converting /vsizip//vsigs/bucket/parcels_2024.zip/data/county to /tmp/parcels_2024.parquet...''
       \<in> set (stdout (snd (convert_to_geoparquet ?env1 ?ev1 ?w)))"
    by (simp add: temp_output_path_def output_filename_stem_def stem_def Path_def splitroot_def
          path_name_def rfind_def)
  from t2 [THEN conjunct2, THEN conjunct2, THEN conjunct1, rule_format, OF conjI, OF g2 s2]
  have c: "fst (locator ?env2 ?ev2 ?w)
             = Next ''/vsizip//vsigs/bucket/roads.zip/shapes/roads.shp''"
    by simp
  from g1 a b g2 s2 c show ?thesis by blast
qed

text \<open>
  C6. When the object name does not end with the archive extension \<open>.zip\<close> (compared, as
  the code does, on the lower-cased name), the function returns at once: nothing is
  downloaded, converted or uploaded (no call is recorded), scratch storage is untouched, and
  the only effect is the printed skip line.
\<close>

theorem skips_non_zip:
  assumes "\<not> endswith (lower (name event)) ''.zip''"
  shows "fst (convert_to_geoparquet env event w) = Returned
       \<and> scratch (snd (convert_to_geoparquet env event w)) = scratch w
       \<and> calls (snd (convert_to_geoparquet env event w)) = calls w
       \<and> stdout (snd (convert_to_geoparquet env event w)) =
           stdout w @ [''File '' @ name event @ '' is not a zip file. Skipping.'']"
  using assms by (simp add: convert_to_geoparquet_def print_def)

theorem skips_non_zip_witness:
  "\<not> endswith (lower (name \<lparr>bucket = ''bucket'', name = ''notes.txt''\<rparr>)) ''.zip''
   \<and> convert_to_geoparquet
        \<lparr>OUTPUT_BUCKET_NAME = Some ''out'', download_to_filename = Download_ok,
         ZipFile_namelist = Inr [''roads.shp''], VectorTranslate = Translate_returns True,
         upload_from_filename = None\<rparr>
        \<lparr>bucket = ''bucket'', name = ''notes.txt''\<rparr>
        \<lparr>scratch = {}, stdout = [], calls = []\<rparr>
     = (Returned,
        \<lparr>scratch = {}, stdout = [''File notes.txt is not a zip file. Skipping.''], calls = []\<rparr>)"
proof -
  have h: "\<not> endswith (lower (name \<lparr>bucket = ''bucket'', name = ''notes.txt''\<rparr>)) ''.zip''"
    by (simp add: lower_def endswith_def)
  from skips_non_zip [OF h,
      of "\<lparr>OUTPUT_BUCKET_NAME = Some ''out'', download_to_filename = Download_ok,
         ZipFile_namelist = Inr [''roads.shp''], VectorTranslate = Translate_returns True,
         upload_from_filename = None\<rparr>" "\<lparr>scratch = {}, stdout = [], calls = []\<rparr>"]
  show ?thesis using h by (simp add: prod_eq_iff world.equality)
qed

text \<open>
  C7. A conversion that leaves no output file should end in a printed failure line and a
  normal return, with no upload. The code does not get that far: once a source is located,
  the options call of lines 90 to 103 raises \<open>TypeError\<close> outside every \<open>try\<close>. For
  \<open>roads.zip\<close> holding \<open>roads.shp\<close>, with no output file on scratch storage, the invocation
  prints the conversion line and then raises; neither failure line is printed and
  \<open>gdal.VectorTranslate\<close> is not called. (The existence check of lines 114 to 116, taken
  alone, does what the claim says: \<open>publisher_missing_output\<close>.)
\<close>

theorem located_source_raises_before_conversion:
  "convert_to_geoparquet
     \<lparr>OUTPUT_BUCKET_NAME = Some ''out'', download_to_filename = Download_ok,
      ZipFile_namelist = Inr [''roads.shp'', ''roads.dbf''],
      VectorTranslate = Translate_returns False, upload_from_filename = None\<rparr>
     \<lparr>bucket = ''bucket'', name = ''roads.zip''\<rparr>
     \<lparr>scratch = {}, stdout = [], calls = []\<rparr>
   = (Raised (unexpected_keyword ''VectorTranslateOptions'' ''gdal_config_options''),
      \<lparr>scratch = {},
       stdout = [''Processing file: roads.zip from bucket: bucket.'',
                 ''Found Shapefile: /vsizip//vsigs/bucket/roads.zip/roads.shp'',
                 ''Converting /vsizip//vsigs/bucket/roads.zip/roads.shp to /tmp/roads.parquet...''],
       calls = [Call_download ''bucket'' ''roads.zip'' ''/tmp/roads.zip'']\<rparr>)"
  by (simp add: eval_defs)


text \<open>
  C9. When the archive was downloaded and listed and no entry is a geodatabase marker, a
  shapefile or a CSV file, the function prints the no-convertible-source line and returns;
  the download is its only call, so the converter is not invoked and nothing is uploaded.
\<close>

theorem no_source_found:
  assumes "endswith (lower (name event)) ''.zip''"
      and "download_to_filename env = Download_ok"
      and "ZipFile_namelist env = Inr file_list"
      and "\<forall>f \<in> set file_list. \<not> is_gdb f \<and> \<not> is_shp f \<and> \<not> is_csv f"
  shows "convert_to_geoparquet env event w =
     (Returned,
      w\<lparr>scratch := scratch w - {local_zip_path (name event)},
        stdout := stdout w @ [''Processing file: '' @ name event @ '' from bucket: ''
                               @ bucket event @ ''.'',
                              ''No convertible data source (GDB, Shapefile, CSV) found in ''
                               @ name event @ ''.''],
        calls := calls w @ [Call_download (bucket event) (name event)
                              (local_zip_path (name event))]\<rparr>)"
proof -
  from assms(4) have "find (\<lambda>f. is_gdb f) file_list = None" "find (\<lambda>f. is_shp f) file_list = None"
    by (auto simp: find_None_iff)
  then have "find_source (gcs_zip_path (bucket event) (name event)) file_list = (None, [])"
    by (rule find_source_none)
  with assms(1) locator_listed [OF assms(2,3), of event w] show ?thesis
    by (simp add: convert_to_geoparquet_def Let_def print_def)
qed

theorem no_source_found_witness:
  "endswith (lower (name \<lparr>bucket = ''bucket'', name = ''empty.zip''\<rparr>)) ''.zip''
   \<and> \<not> is_gdb ''notes.txt'' \<and> \<not> is_shp ''notes.txt'' \<and> \<not> is_csv ''notes.txt''
   \<and> convert_to_geoparquet
        \<lparr>OUTPUT_BUCKET_NAME = Some ''out'', download_to_filename = Download_ok,
         ZipFile_namelist = Inr [''notes.txt''],
         VectorTranslate = Translate_returns True, upload_from_filename = None\<rparr>
        \<lparr>bucket = ''bucket'', name = ''empty.zip''\<rparr>
        \<lparr>scratch = {}, stdout = [], calls = []\<rparr>
     = (Returned,
        \<lparr>scratch = {},
         stdout = [''Processing file: empty.zip from bucket: bucket.'',
                   ''No convertible data source (GDB, Shapefile, CSV) found in empty.zip.''],
         calls = [Call_download ''bucket'' ''empty.zip'' ''/tmp/empty.zip'']\<rparr>)"
proof -
  have h: "endswith (lower (name \<lparr>bucket = ''bucket'', name = ''empty.zip''\<rparr>)) ''.zip''"
    by (simp add: lower_def endswith_def)
  have n: "\<forall>f \<in> set [''notes.txt'']. \<not> is_gdb f \<and> \<not> is_shp f \<and> \<not> is_csv f"
    by (simp add: lower_def endswith_def)
  from no_source_found [OF h _ _ n,
      of "\<lparr>OUTPUT_BUCKET_NAME = Some ''out'', download_to_filename = Download_ok,
         ZipFile_namelist = Inr [''notes.txt''],
         VectorTranslate = Translate_returns True, upload_from_filename = None\<rparr>"
         "\<lparr>scratch = {}, stdout = [], calls = []\<rparr>"]
  show ?thesis using h n by (simp add: local_zip_path_def)
qed


end
